theory Spec2Isabelle
  imports Main "HOL-Library.Sublist"
begin

section \<open>Data model\<close>

text \<open>
  A Python exception caught by \<^verbatim>\<open>except Exception as e\<close>: its class name and what
  \<^verbatim>\<open>str(e)\<close> gives, the text or the exception that formatting it raises. Every exception
  of the model is an instance of \<^verbatim>\<open>Exception\<close>, the class both \<^verbatim>\<open>except\<close> clauses
  of main.py catch.
\<close>

datatype exn = Exn (exn_class: string) (exn_str: "exn + string")

text \<open>
  JSON values, as the framework hands a parsed request body to the request model and as it
  serialises a returned dict. An object is the item list of the parsed dict.
\<close>

datatype json =
    JNull
  | JBool bool
  | JNum int
  | JStr string
  | JArr "json list"
  | JObj "(string \<times> json) list"

text \<open>\<^verbatim>\<open>class ChatRequest(BaseModel): message: str\<close>\<close>

record ChatRequest =
  message :: string

text \<open>The ways the request model rejects a body.\<close>

datatype validation_error = JsonInvalid | ModelType | Missing | StringType

text \<open>\<^verbatim>\<open>HTTPException(status_code=..., detail=...)\<close>\<close>

datatype http_exception = HTTPException (status_code: nat) (detail: string)

text \<open>
  What leaves a handler when it raises: an \<^verbatim>\<open>HTTPException\<close>, which the framework turns
  into a response with its status code and detail, or any other exception, which no one
  catches.
\<close>

datatype raised = HTTPExc http_exception | Uncaught exn

datatype payload =
    Html string
  | Json json
  | PlainText string
  | ValidationDetail validation_error

record http_response =
  status :: nat
  content_type :: string
  body :: payload

text \<open>
  The object \<^verbatim>\<open>chat.send_message\<close> returns. Its \<^verbatim>\<open>text\<close> property is read inside
  the \<^verbatim>\<open>try\<close> block and may itself raise.
\<close>

datatype response = Response (response_text: "exn + string")

text \<open>
  The process state the handlers see: the module-level \<^verbatim>\<open>chat\<close> object, of a type
  \<open>'c\<close> the handlers never look into, and what \<^verbatim>\<open>print\<close> has written so far.
\<close>

record 'c app_state =
  chat :: 'c
  stdout :: "string list"

section \<open>Printing\<close>

text \<open>
  \<^verbatim>\<open>print(s)\<close>. The stream \<open>out\<close> tells what writing a text raises, if anything (an
  encoding error, a closed stream); a text that is written is added to the log.
\<close>

definition print_line :: "(string \<Rightarrow> exn option) \<Rightarrow> string \<Rightarrow> string list \<Rightarrow> exn + string list" where
  "print_line out s log =
     (case out s of
        Some x \<Rightarrow> Inl x
      | None \<Rightarrow> Inr (log @ [s]))"

text \<open>\<^verbatim>\<open>print(f"<label>{e}")\<close>: \<^verbatim>\<open>str(e)\<close> is formed first, then the line is written.\<close>

definition print_exn ::
  "(string \<Rightarrow> exn option) \<Rightarrow> string \<Rightarrow> exn \<Rightarrow> string list \<Rightarrow> exn + string list"
where
  "print_exn out label e log =
     (case exn_str e of
        Inl x \<Rightarrow> Inl x
      | Inr s \<Rightarrow> print_line out (label @ s) log)"

section \<open>Request model\<close>

text \<open>
  Validation of a POST body against \<^verbatim>\<open>ChatRequest\<close>; \<open>None\<close> is a body that is not
  JSON at all. Members other than \<^verbatim>\<open>message\<close> are ignored.
\<close>

fun ChatRequest_validate :: "json option \<Rightarrow> validation_error + ChatRequest" where
  "ChatRequest_validate None = Inl JsonInvalid"
| "ChatRequest_validate (Some (JObj members)) =
     (case map_of members ''message'' of
        None \<Rightarrow> Inl Missing
      | Some (JStr s) \<Rightarrow> Inr \<lparr>message = s\<rparr>
      | Some _ \<Rightarrow> Inl StringType)"
| "ChatRequest_validate (Some _) = Inl ModelType"

section \<open>Handlers\<close>

text \<open>
  \<^verbatim>\<open>read_root\<close>: renders the template index.html with the request as its context. The
  template engine is a parameter: from a template name and the request to the rendered
  page, or the exception it raises.
\<close>

definition read_root ::
  "(string \<Rightarrow> 'r \<Rightarrow> exn + string) \<Rightarrow> 'r \<Rightarrow> 'c app_state \<Rightarrow> (exn + http_response) \<times> 'c app_state"
where
  "read_root templates request st =
     (case templates ''index.html'' request of
        Inl e \<Rightarrow> (Inl e, st)
      | Inr page \<Rightarrow> (Inr \<lparr>status = 200, content_type = ''text/html'', body = Html page\<rparr>, st))"

definition failure_detail :: string where
  "failure_detail =
     ''Failed to get a response from the AI model. Check server logs for details.''"

text \<open>
  The \<^verbatim>\<open>except Exception as e\<close> block of \<^verbatim>\<open>handle_chat\<close>: the print comes first, and
  only when it returns is the \<^verbatim>\<open>HTTPException\<close> raised; an exception of the print itself
  leaves the handler as it is.
\<close>

definition handle_chat_except ::
  "(string \<Rightarrow> exn option) \<Rightarrow> exn \<Rightarrow> 'c app_state \<Rightarrow> (raised + json) \<times> 'c app_state"
where
  "handle_chat_except out e st =
     (case print_exn out ''An error occurred during the API call: '' e (stdout st) of
        Inl x \<Rightarrow> (Inl (Uncaught x), st)
      | Inr log \<Rightarrow> (Inl (HTTPExc (HTTPException 500 failure_detail)), st\<lparr>stdout := log\<rparr>))"

text \<open>
  \<^verbatim>\<open>handle_chat\<close>. The operation \<^verbatim>\<open>chat.send_message\<close> is the parameter \<open>send\<close>:
  from the chat object and the message to the response or the exception raised, and the
  chat object afterwards.
\<close>

definition handle_chat ::
  "(string \<Rightarrow> exn option) \<Rightarrow> ('c \<Rightarrow> string \<Rightarrow> (exn + response) \<times> 'c) \<Rightarrow> ChatRequest
     \<Rightarrow> 'c app_state \<Rightarrow> (raised + json) \<times> 'c app_state"
where
  "handle_chat out send chat_request st =
     (case send (chat st) (message chat_request) of
        (Inl e, c) \<Rightarrow> handle_chat_except out e (st\<lparr>chat := c\<rparr>)
      | (Inr r, c) \<Rightarrow>
          (case response_text r of
             Inl e \<Rightarrow> handle_chat_except out e (st\<lparr>chat := c\<rparr>)
           | Inr t \<Rightarrow> (Inr (JObj [(''reply'', JStr t)]), st\<lparr>chat := c\<rparr>)))"

section \<open>Routes\<close>

text \<open>What the framework sends for an exception no handler catches.\<close>

definition internal_server_error :: http_response where
  "internal_server_error =
     \<lparr>status = 500, content_type = ''text/plain'', body = PlainText ''Internal Server Error''\<rparr>"

text \<open>\<^verbatim>\<open>@app.get("/", response_class=HTMLResponse)\<close>\<close>

definition get_root ::
  "(string \<Rightarrow> 'r \<Rightarrow> exn + string) \<Rightarrow> 'r \<Rightarrow> 'c app_state \<Rightarrow> http_response \<times> 'c app_state"
where
  "get_root templates request st =
     (case read_root templates request st of
        (Inl e, st') \<Rightarrow> (internal_server_error, st')
      | (Inr r, st') \<Rightarrow> (r, st'))"

text \<open>
  \<^verbatim>\<open>@app.post("/api/chat", response_class=JSONResponse)\<close>: the body is validated
  against \<^verbatim>\<open>ChatRequest\<close> before the handler is called; a returned dict is sent as JSON
  with status 200, a raised \<^verbatim>\<open>HTTPException\<close> as its status code with the detail, and
  any other exception as the framework's own 500.
\<close>

definition post_api_chat ::
  "(string \<Rightarrow> exn option) \<Rightarrow> ('c \<Rightarrow> string \<Rightarrow> (exn + response) \<times> 'c) \<Rightarrow> json option
     \<Rightarrow> 'c app_state \<Rightarrow> http_response \<times> 'c app_state"
where
  "post_api_chat out send raw st =
     (case ChatRequest_validate raw of
        Inl err \<Rightarrow>
          (\<lparr>status = 422, content_type = ''application/json'', body = ValidationDetail err\<rparr>, st)
      | Inr chat_request \<Rightarrow>
          (case handle_chat out send chat_request st of
             (Inl (HTTPExc exc), st') \<Rightarrow>
               (\<lparr>status = status_code exc, content_type = ''application/json'',
                 body = Json (JObj [(''detail'', JStr (detail exc))])\<rparr>, st')
           | (Inl (Uncaught x), st') \<Rightarrow> (internal_server_error, st')
           | (Inr dict, st') \<Rightarrow>
               (\<lparr>status = 200, content_type = ''application/json'', body = Json dict\<rparr>, st')))"

text \<open>The body \<^verbatim>\<open>{"message": m}\<close>.\<close>

definition message_body :: "string \<Rightarrow> json option" where
  "message_body m = Some (JObj [(''message'', JStr m)])"

section \<open>The chat session\<close>

text \<open>
  \<^verbatim>\<open>chat = model.start_chat(history=[])\<close> is an object of the generative-language
  client library. Its data: the ordered turns so far, the key the library was configured
  with, and the state \<open>'w\<close> of the remote service.
\<close>

datatype role = User | Model

datatype turn = Turn (turn_role: role) (turn_text: string)

record 'w chat_session =
  history :: "turn list"
  credential :: "string option"
  world :: 'w

text \<open>
  The remote model: from the configured key, its own state and the ordered context to the
  generated text or the exception raised, and its state afterwards.
\<close>

type_synonym 'w collaborator =
  "string option \<Rightarrow> 'w \<Rightarrow> turn list \<Rightarrow> (exn + string) \<times> 'w"

text \<open>
  Modelled from the spec: \<^verbatim>\<open>ChatSession.send_message\<close> of the client library, which is
  not under src/ (spec 4.1: input constraint, behavior, side effect, failure). The message
  must be non-empty text, and nothing else is asked of it: an empty one is refused before the
  remote model is called. Otherwise the message becomes a user turn after the history, the
  remote model is called with that context, and on success the user turn and the reply, as
  a model turn, are appended and the reply text returned; on failure the history stays as
  it was.
\<close>

definition send_message ::
  "'w collaborator \<Rightarrow> 'w chat_session \<Rightarrow> string \<Rightarrow> (exn + response) \<times> 'w chat_session"
where
  "send_message gen c msg =
     (if msg = [] then (Inl (Exn ''ValueError'' (Inr ''content must not be empty'')), c)
      else
        let context = history c @ [Turn User msg] in
        case gen (credential c) (world c) context of
          (Inl e, w) \<Rightarrow> (Inl e, c\<lparr>world := w\<rparr>)
        | (Inr t, w) \<Rightarrow>
            (Inr (Response (Inr t)), c\<lparr>history := context @ [Turn Model t], world := w\<rparr>))"

text \<open>A remote model that also records every context it is called with.\<close>

definition recording :: "'w collaborator \<Rightarrow> ('w \<times> turn list list) collaborator" where
  "recording gen key wl context =
     (case gen key (fst wl) context of (r, w) \<Rightarrow> (r, (w, snd wl @ [context])))"

text \<open>Stub remote models: a fixed reply; a reply that tells a first call from a later one;
  one that rejects a call made without a key (none, or the empty one); one that fails with
  a text outside ASCII.\<close>

definition stub_model :: "string \<Rightarrow> unit collaborator" where
  "stub_model reply key w context = (Inr reply, w)"

definition context_model :: "unit collaborator" where
  "context_model key w context =
     (Inr (if length context \<le> 1 then ''hi there'' else ''hello again''), w)"


definition failing_model :: "unit collaborator" where
  "failing_model key w context =
     (Inl (Exn ''ServiceUnavailable'' (Inr (''caf'' @ [CHR 0xE9] @ '' is closed''))), w)"

text \<open>
  Streams: one that takes every text, and one with the ASCII encoding, which raises on a
  text with a character outside it.
\<close>

definition utf8_stdout :: "string \<Rightarrow> exn option" where
  "utf8_stdout s = None"

definition ascii_stdout :: "string \<Rightarrow> exn option" where
  "ascii_stdout s =
     (if list_all (\<lambda>c. (of_char c :: nat) < 128) s then None
      else Some (Exn ''UnicodeEncodeError'' (Inr ''ascii codec cannot encode character'')))"

section \<open>Startup\<close>






section \<open>Sequences of requests\<close>

text \<open>The POSTs of the messages \<open>ms\<close>, one after the other: the responses and the final state.\<close>

fun post_all ::
  "(string \<Rightarrow> exn option) \<Rightarrow> ('c \<Rightarrow> string \<Rightarrow> (exn + response) \<times> 'c) \<Rightarrow> string list
     \<Rightarrow> 'c app_state \<Rightarrow> http_response list \<times> 'c app_state"
where
  "post_all out send [] st = ([], st)"
| "post_all out send (m # ms) st =
     (case post_api_chat out send (message_body m) st of
        (r, st') \<Rightarrow> (case post_all out send ms st' of (rs, st'') \<Rightarrow> (r # rs, st'')))"

text \<open>The response \<^verbatim>\<open>200 {"reply": t}\<close>, and the turns one successful exchange adds.\<close>

definition reply_response :: "string \<Rightarrow> http_response" where
  "reply_response t =
     \<lparr>status = 200, content_type = ''application/json'', body = Json (JObj [(''reply'', JStr t)])\<rparr>"

definition exchange :: "string \<Rightarrow> string \<Rightarrow> turn list" where
  "exchange m t = [Turn User m, Turn Model t]"

section \<open>POST /api/chat: success and failure\<close>

text \<open>
  C1: whenever \<^verbatim>\<open>chat.send_message\<close> returns a response with text \<open>t\<close> for the message,
  POST /api/chat answers 200 with the JSON object whose one member is \<^verbatim>\<open>reply\<close>, the
  string \<open>t\<close> itself. Nothing is printed on this path, so the stream plays no part.
\<close>

theorem chat_success_reply:
  assumes "send (chat st) m = (Inr (Response (Inr t)), c)"
  shows "post_api_chat out send (message_body m) st =
           (\<lparr>status = 200, content_type = ''application/json'',
             body = Json (JObj [(''reply'', JStr t)])\<rparr>, st\<lparr>chat := c\<rparr>)"
  using assms by (simp add: post_api_chat_def message_body_def handle_chat_def)

theorem chat_success_reply_witness:
  "send_message (stub_model ''hi there'') \<lparr>history = [], credential = Some ''k'', world = ()\<rparr> ''hello''
     = (Inr (Response (Inr ''hi there'')),
        \<lparr>history = [Turn User ''hello'', Turn Model ''hi there''], credential = Some ''k'', world = ()\<rparr>)
   \<and> post_api_chat utf8_stdout (send_message (stub_model ''hi there'')) (message_body ''hello'')
        \<lparr>chat = \<lparr>history = [], credential = Some ''k'', world = ()\<rparr>, stdout = []\<rparr>
     = (\<lparr>status = 200, content_type = ''application/json'',
         body = Json (JObj [(''reply'', JStr ''hi there'')])\<rparr>,
        \<lparr>chat = \<lparr>history = [Turn User ''hello'', Turn Model ''hi there''],
                  credential = Some ''k'', world = ()\<rparr>, stdout = []\<rparr>)"
proof -
  have h: "send_message (stub_model ''hi there'') \<lparr>history = [], credential = Some ''k'', world = ()\<rparr> ''hello''
     = (Inr (Response (Inr ''hi there'')),
        \<lparr>history = [Turn User ''hello'', Turn Model ''hi there''], credential = Some ''k'', world = ()\<rparr>)"
    by (simp add: send_message_def stub_model_def)
  show ?thesis
    using h chat_success_reply [of "send_message (stub_model ''hi there'')"
        "\<lparr>chat = \<lparr>history = [], credential = Some ''k'', world = ()\<rparr>, stdout = []\<rparr>"
        "''hello''" "''hi there''"
        "\<lparr>history = [Turn User ''hello'', Turn Model ''hi there''], credential = Some ''k'', world = ()\<rparr>"
        utf8_stdout]
    by simp
qed

text \<open>
  When \<^verbatim>\<open>chat.send_message\<close>, or reading the text of its response, raises \<open>e\<close>, and the
  line with \<open>e\<close> is printed, the answer is 500 with the fixed detail, in which \<open>e\<close> does
  not occur.
\<close>

lemma chat_failure_logged:
  assumes "send (chat st) m = (Inl e, c) \<or>
           (\<exists>r. send (chat st) m = (Inr r, c) \<and> response_text r = Inl e)"
      and "exn_str e = Inr s"
      and "out (''An error occurred during the API call: '' @ s) = None"
  shows "post_api_chat out send (message_body m) st =
           (\<lparr>status = 500, content_type = ''application/json'',
             body = Json (JObj [(''detail'',
               JStr ''Failed to get a response from the AI model. Check server logs for details.'')])\<rparr>,
            st\<lparr>chat := c,
               stdout := stdout st @ [''An error occurred during the API call: '' @ s]\<rparr>)"
  using assms
  by (auto simp add: post_api_chat_def message_body_def handle_chat_def handle_chat_except_def
      print_exn_def print_line_def failure_detail_def)

text \<open>
  C3 does not hold of main.py for every error: the print of line 73 runs before the
  \<^verbatim>\<open>raise\<close> of line 74. With a stream in the ASCII encoding and an error whose text has a
  character outside it, the print raises, no \<^verbatim>\<open>HTTPException\<close> is raised, the exception
  leaves the handler uncaught, and the answer is the framework's plain-text 500, without the
  fixed detail.
\<close>

theorem chat_failure_print_raises:
  "post_api_chat ascii_stdout (send_message failing_model) (message_body ''hello'')
      \<lparr>chat = \<lparr>history = [], credential = Some ''k'', world = ()\<rparr>, stdout = []\<rparr>
     = (\<lparr>status = 500, content_type = ''text/plain'', body = PlainText ''Internal Server Error''\<rparr>,
        \<lparr>chat = \<lparr>history = [], credential = Some ''k'', world = ()\<rparr>, stdout = []\<rparr>)"
  by (simp add: post_api_chat_def message_body_def handle_chat_def handle_chat_except_def
      print_exn_def print_line_def send_message_def failing_model_def ascii_stdout_def
      internal_server_error_def)


section \<open>GET /\<close>

text \<open>
  C8: with the template index.html in place, GET / answers 200 with the rendered page as
  HTML, whatever the chat state; two states give the same response.
\<close>

theorem root_page_ok:
  assumes "templates ''index.html'' request = Inr page"
  shows "fst (get_root templates request st) =
           \<lparr>status = 200, content_type = ''text/html'', body = Html page\<rparr>
         \<and> fst (get_root templates request st) = fst (get_root templates request st')"
  using assms by (simp add: get_root_def read_root_def)

theorem root_page_ok_witness:
  "(\<lambda>name request. Inr ''<html></html>'') ''index.html'' () = (Inr ''<html></html>'' :: exn + string)
   \<and> fst (get_root (\<lambda>name request. Inr ''<html></html>'') ()
        \<lparr>chat = \<lparr>history = [Turn User ''hello'', Turn Model ''hi there''],
                  credential = None, world = ()\<rparr>, stdout = []\<rparr>)
     = \<lparr>status = 200, content_type = ''text/html'', body = Html ''<html></html>''\<rparr>
   \<and> fst (get_root (\<lambda>name request. Inr ''<html></html>'') ()
        \<lparr>chat = \<lparr>history = [Turn User ''hello'', Turn Model ''hi there''],
                  credential = None, world = ()\<rparr>, stdout = []\<rparr>)
     = fst (get_root (\<lambda>name request. Inr ''<html></html>'') ()
        \<lparr>chat = \<lparr>history = [], credential = None, world = ()\<rparr>, stdout = []\<rparr>)"
  using root_page_ok [of "\<lambda>name request. Inr ''<html></html>''" "()" "''<html></html>''"
      "\<lparr>chat = \<lparr>history = [Turn User ''hello'', Turn Model ''hi there''],
                  credential = None, world = ()\<rparr>, stdout = []\<rparr>"
      "\<lparr>chat = \<lparr>history = [], credential = None, world = ()\<rparr>, stdout = []\<rparr>"]
  by (simp add: get_root_def read_root_def)

text \<open>
  C10: GET / leaves the state as it was: the history, the rest of the chat session and the
  log.
\<close>

theorem root_frame: "snd (get_root templates request st) = st"
  by (simp add: get_root_def read_root_def split: sum.splits)

section \<open>Request validation\<close>

lemma validate_Inr:
  "ChatRequest_validate raw = Inr q \<Longrightarrow>
     \<exists>members. raw = Some (JObj members) \<and> map_of members ''message'' = Some (JStr (message q))"
  by (cases raw rule: ChatRequest_validate.cases)
     (auto split: option.splits json.splits)

text \<open>
  C9: a POST /api/chat body that is not a JSON object with a string member \<^verbatim>\<open>message\<close>
  (no such member, a member of another type, a body that is not an object or not JSON) is
  answered by the request model with a validation error, before \<^verbatim>\<open>handle_chat\<close> runs:
  whatever \<open>send\<close> is, it has no part in the response, and the state, with the chat
  session and its history, is the one before the request.
\<close>

text \<open>
  C9: a POST /api/chat body that is not a JSON object with a string member \<^verbatim>\<open>message\<close>
  (no such member, a member of another type, a body that is not an object or not JSON) is
  answered by the request model with a validation error, before \<^verbatim>\<open>handle_chat\<close> runs:
  whatever \<open>send\<close> and the stream are, they have no part in the response, and the state,
  with the chat session and its history, is the one before the request.
\<close>

theorem invalid_body_rejected:
  assumes "\<not> (\<exists>members m. raw = Some (JObj members) \<and> map_of members ''message'' = Some (JStr m))"
  shows "\<exists>err. \<forall>out send. post_api_chat out send raw st =
           (\<lparr>status = 422, content_type = ''application/json'', body = ValidationDetail err\<rparr>, st)"
proof (cases "ChatRequest_validate raw")
  case (Inl err)
  then show ?thesis by (simp add: post_api_chat_def)
next
  case (Inr q)
  from validate_Inr [OF this] assms show ?thesis by blast
qed

theorem invalid_body_rejected_witness:
  "\<not> (\<exists>members m. Some (JObj [(''message'', JNum 5)]) = Some (JObj members)
          \<and> map_of members ''message'' = Some (JStr m))
   \<and> (\<exists>err. \<forall>out send. post_api_chat out send (Some (JObj [(''message'', JNum 5)]))
          \<lparr>chat = \<lparr>history = [Turn User ''hello'', Turn Model ''hi there''],
                    credential = Some ''k'', world = ()\<rparr>, stdout = []\<rparr>
        = (\<lparr>status = 422, content_type = ''application/json'', body = ValidationDetail err\<rparr>,
           \<lparr>chat = \<lparr>history = [Turn User ''hello'', Turn Model ''hi there''],
                     credential = Some ''k'', world = ()\<rparr>, stdout = []\<rparr>))"
proof -
  have h: "\<not> (\<exists>members m. Some (JObj [(''message'', JNum 5)]) = Some (JObj members)
          \<and> map_of members ''message'' = Some (JStr m))"
    by auto
  from invalid_body_rejected [OF h,
      where st = "\<lparr>chat = \<lparr>history = [Turn User ''hello'', Turn Model ''hi there''],
                    credential = Some ''k'', world = ()\<rparr>, stdout = []\<rparr>"] h
  show ?thesis by (rule conjI [rotated])
qed

section \<open>The history\<close>

lemma handle_chat_send_message:
  "handle_chat out (send_message gen) q st = (res, st') \<Longrightarrow>
     (\<exists>t. res = Inr (JObj [(''reply'', JStr t)]) \<and>
          history (chat st') = history (chat st) @ exchange (message q) t) \<or>
     ((res = Inl (HTTPExc (HTTPException 500 failure_detail)) \<or> (\<exists>x. res = Inl (Uncaught x)))
        \<and> history (chat st') = history (chat st))"
  by (auto simp add: handle_chat_def send_message_def handle_chat_except_def exchange_def Let_def
      split: if_splits prod.splits sum.splits)

lemma post_send_message:
  "post_api_chat out (send_message gen) raw st = (r, st') \<Longrightarrow>
     (\<exists>q t. ChatRequest_validate raw = Inr q \<and> r = reply_response t \<and>
          history (chat st') = history (chat st) @ exchange (message q) t) \<or>
     (status r \<noteq> 200 \<and> history (chat st') = history (chat st))"
  by (auto simp add: post_api_chat_def reply_response_def internal_server_error_def
      split: sum.splits prod.splits raised.splits dest!: handle_chat_send_message)

lemma validate_message_body [simp]:
  "ChatRequest_validate (message_body m) = Inr \<lparr>message = m\<rparr>"
  by (simp add: message_body_def)

lemma post_message_ok:
  assumes "post_api_chat out (send_message gen) (message_body m) st = (r, st')"
      and "status r = 200"
  shows "\<exists>t. r = reply_response t \<and> history (chat st') = history (chat st) @ exchange m t"
  using post_send_message [OF assms(1)] assms(2) by auto

lemma post_all_history:
  "post_all out (send_message gen) ms st = (rs, st') \<Longrightarrow> \<forall>r \<in> set rs. status r = 200 \<Longrightarrow>
     \<exists>ts. length ts = length ms \<and> rs = map reply_response ts \<and>
          history (chat st') = history (chat st) @ concat (map2 exchange ms ts)"
proof (induction ms arbitrary: st rs st')
  case Nil
  then show ?case by simp
next
  case (Cons m ms)
  obtain r st1 where p: "post_api_chat out (send_message gen) (message_body m) st = (r, st1)"
    by (cases "post_api_chat out (send_message gen) (message_body m) st")
  obtain rs1 st2 where q: "post_all out (send_message gen) ms st1 = (rs1, st2)"
    by (cases "post_all out (send_message gen) ms st1")
  from Cons.prems(1) p q have e: "rs = r # rs1" "st' = st2" by simp_all
  with Cons.prems(2) have ok: "status r = 200" "\<forall>r \<in> set rs1. status r = 200" by simp_all
  from post_message_ok [OF p ok(1)] obtain t where
    t: "r = reply_response t" "history (chat st1) = history (chat st) @ exchange m t" by blast
  from Cons.IH [OF q ok(2)] obtain ts where
    ts: "length ts = length ms" "rs1 = map reply_response ts"
        "history (chat st2) = history (chat st1) @ concat (map2 exchange ms ts)" by blast
  have "length (t # ts) = length (m # ms)" using ts(1) by simp
  moreover have "rs = map reply_response (t # ts)" using e t ts by simp
  moreover have "history (chat st') = history (chat st) @ concat (map2 exchange (m # ms) (t # ts))"
    using e t ts by simp
  ultimately show ?case by blast
qed

lemma length_exchanges:
  "length ts = length ms \<Longrightarrow> length (concat (map2 exchange ms ts)) = 2 * length ms"
  by (induction ms ts rule: list_induct2') (simp_all add: exchange_def)

lemma nth_exchanges:
  "length ts = length ms \<Longrightarrow> i < length ms \<Longrightarrow>
     concat (map2 exchange ms ts) ! (2 * i) = Turn User (ms ! i) \<and>
     concat (map2 exchange ms ts) ! (2 * i + 1) = Turn Model (ts ! i)"
proof (induction ms arbitrary: ts i)
  case Nil
  then show ?case by simp
next
  case (Cons m ms)
  then obtain t ts' where ts: "ts = t # ts'" by (cases ts) auto
  show ?case
  proof (cases i)
    case 0
    then show ?thesis by (simp add: ts exchange_def)
  next
    case (Suc j)
    with Cons.prems ts have "length ts' = length ms" "j < length ms" by simp_all
    from Cons.IH [OF this] show ?thesis by (simp add: ts Suc exchange_def)
  qed
qed

lemma post_prefix:
  "prefix (history (chat st)) (history (chat (snd (post_api_chat out (send_message gen) raw st))))"
proof -
  obtain r st' where p: "post_api_chat out (send_message gen) raw st = (r, st')"
    by (cases "post_api_chat out (send_message gen) raw st")
  from post_send_message [OF p] show ?thesis by (auto simp add: p)
qed

text \<open>
  C2: after the POSTs of N messages, all answered 200, from the empty history, the history
  has exactly 2N turns: the user turn of each message followed by the model turn of its
  reply, in the order of the calls. Every POST answered 200 adds exactly these two turns at
  the end, and no request, whatever its body and its outcome, removes or moves a turn: the
  history before is a prefix of the history after, and GET / leaves it as it is.
\<close>

text \<open>
  C2: after the POSTs of N messages, all answered 200, from the empty history, the history
  has exactly 2N turns: the user turn of each message followed by the model turn of its
  reply, in the order of the calls. Every POST answered 200 adds exactly these two turns at
  the end, and no request, whatever its body and its outcome, removes or moves a turn: the
  history before is a prefix of the history after, and GET / leaves it as it is.
\<close>

theorem history_two_turns_per_call:
  fixes st :: "'w chat_session app_state"
  assumes "post_all out (send_message gen) ms st = (rs, st')"
      and "\<forall>r \<in> set rs. status r = 200"
      and "history (chat st) = []"
  shows "length (history (chat st')) = 2 * length ms
       \<and> (\<exists>ts. length ts = length ms \<and> rs = map reply_response ts
              \<and> history (chat st') = concat (map2 exchange ms ts)
              \<and> (\<forall>i < length ms. history (chat st') ! (2 * i) = Turn User (ms ! i)
                     \<and> history (chat st') ! (2 * i + 1) = Turn Model (ts ! i)))
       \<and> (\<forall>(s :: 'w chat_session app_state) m r s'.
              post_api_chat out (send_message gen) (message_body m) s = (r, s') \<and> status r = 200
              \<longrightarrow> length (history (chat s')) = length (history (chat s)) + 2
                  \<and> (\<exists>t. history (chat s') = history (chat s) @ [Turn User m, Turn Model t]))
       \<and> (\<forall>(s :: 'w chat_session app_state) raw.
              prefix (history (chat s))
                (history (chat (snd (post_api_chat out (send_message gen) raw s)))))
       \<and> (\<forall>(s :: 'w chat_session app_state).
              history (chat (snd (get_root templates request s))) = history (chat s))"
proof -
  from post_all_history [OF assms(1,2)] assms(3) obtain ts where
    ts: "length ts = length ms" "rs = map reply_response ts"
        "history (chat st') = concat (map2 exchange ms ts)" by auto
  have a: "length (history (chat st')) = 2 * length ms"
    using ts(1,3) by (simp add: length_exchanges)
  have b: "\<forall>i < length ms. history (chat st') ! (2 * i) = Turn User (ms ! i)
                     \<and> history (chat st') ! (2 * i + 1) = Turn Model (ts ! i)"
    using nth_exchanges [OF ts(1)] ts(3) by simp
  have c: "\<forall>(s :: 'w chat_session app_state) m r s'.
              post_api_chat out (send_message gen) (message_body m) s = (r, s') \<and> status r = 200
              \<longrightarrow> length (history (chat s')) = length (history (chat s)) + 2
                  \<and> (\<exists>t. history (chat s') = history (chat s) @ [Turn User m, Turn Model t])"
    using post_message_ok [where gen = gen] by (fastforce simp add: exchange_def)
  have d: "\<forall>(s :: 'w chat_session app_state) raw.
              prefix (history (chat s))
                (history (chat (snd (post_api_chat out (send_message gen) raw s))))"
    by (simp add: post_prefix)
  have e: "\<forall>(s :: 'w chat_session app_state).
              history (chat (snd (get_root templates request s))) = history (chat s)"
    by (simp add: get_root_def read_root_def split: sum.splits)
  from a b c d e ts show ?thesis by blast
qed

theorem history_two_turns_per_call_witness:
  "post_all utf8_stdout (send_message context_model) [''hello'', ''hello'']
      \<lparr>chat = \<lparr>history = [], credential = Some ''k'', world = ()\<rparr>, stdout = []\<rparr>
     = ([reply_response ''hi there'', reply_response ''hello again''],
        \<lparr>chat = \<lparr>history = [Turn User ''hello'', Turn Model ''hi there'',
                             Turn User ''hello'', Turn Model ''hello again''],
                  credential = Some ''k'', world = ()\<rparr>, stdout = []\<rparr>)
   \<and> status (reply_response ''hi there'') = 200
   \<and> status (reply_response ''hello again'') = 200
   \<and> history (chat \<lparr>chat = \<lparr>history = [], credential = Some ''k'', world = ()\<rparr>, stdout = []\<rparr>) = []
   \<and> length (history (chat \<lparr>chat = \<lparr>history = [Turn User ''hello'', Turn Model ''hi there'',
                             Turn User ''hello'', Turn Model ''hello again''],
                  credential = Some ''k'', world = ()\<rparr>, stdout = []\<rparr>)) = 2 * length [''hello'', ''hello'']"
proof -
  have h1: "post_all utf8_stdout (send_message context_model) [''hello'', ''hello'']
      \<lparr>chat = \<lparr>history = [], credential = Some ''k'', world = ()\<rparr>, stdout = []\<rparr>
     = ([reply_response ''hi there'', reply_response ''hello again''],
        \<lparr>chat = \<lparr>history = [Turn User ''hello'', Turn Model ''hi there'',
                             Turn User ''hello'', Turn Model ''hello again''],
                  credential = Some ''k'', world = ()\<rparr>, stdout = []\<rparr>)"
    by (simp add: post_api_chat_def message_body_def handle_chat_def send_message_def
        context_model_def reply_response_def)
  have h2: "\<forall>r \<in> set [reply_response ''hi there'', reply_response ''hello again'']. status r = 200"
    by (simp add: reply_response_def)
  have h3: "history (chat \<lparr>chat = \<lparr>history = [], credential = Some ''k'', world = ()\<rparr>, stdout = []\<rparr>) = []"
    by simp
  have c: "length (history (chat \<lparr>chat = \<lparr>history = [Turn User ''hello'', Turn Model ''hi there'',
                             Turn User ''hello'', Turn Model ''hello again''],
                  credential = Some ''k'', world = ()\<rparr>, stdout = []\<rparr>)) = 2 * length [''hello'', ''hello'']"
    using history_two_turns_per_call [OF h1 h2 h3] by (rule conjunct1)
  have h4: "status (reply_response ''hi there'') = 200" "status (reply_response ''hello again'') = 200"
    by (simp_all add: reply_response_def)
  from h1 h3 h4 c show ?thesis by (intro conjI)
qed

section \<open>The context sent to the remote model\<close>

lemma post_recording_ok:
  assumes "post_api_chat out (send_message (recording gen)) (message_body m) st = (reply_response t, st1)"
  shows "snd (world (chat st1)) = snd (world (chat st)) @ [history (chat st) @ [Turn User m]]
       \<and> history (chat st1) = history (chat st) @ [Turn User m, Turn Model t]"
  using assms
  by (auto simp add: post_api_chat_def handle_chat_def send_message_def recording_def
      handle_chat_except_def reply_response_def internal_server_error_def Let_def
      split: if_splits prod.splits sum.splits)

text \<open>
  C5: on every POST answered 200 the remote model is called once, with the whole history so
  far, in order, followed by the new message as a user turn. So a second POST of the same
  message, answered 200 as well, sends the first exchange (the message and its reply) and
  then the message again. The calls are read off a remote model that records its contexts.
\<close>

text \<open>
  C5: on every POST answered 200 the remote model is called once, with the whole history so
  far, in order, followed by the new message as a user turn. So a second POST of the same
  message, answered 200 as well, sends the first exchange (the message and its reply) and
  then the message again. The calls are read off a remote model that records its contexts.
\<close>

theorem context_sent:
  assumes "post_api_chat out (send_message (recording gen)) (message_body m) st = (reply_response t, st1)"
  shows "snd (world (chat st1)) = snd (world (chat st)) @ [history (chat st) @ [Turn User m]]
       \<and> (\<forall>t2 st2.
            post_api_chat out (send_message (recording gen)) (message_body m) st1 = (reply_response t2, st2)
            \<longrightarrow> snd (world (chat st2)) =
                  snd (world (chat st)) @
                    [history (chat st) @ [Turn User m],
                     history (chat st) @ [Turn User m, Turn Model t, Turn User m]])"
proof -
  from post_recording_ok [OF assms] have
    a: "snd (world (chat st1)) = snd (world (chat st)) @ [history (chat st) @ [Turn User m]]" and
    b: "history (chat st1) = history (chat st) @ [Turn User m, Turn Model t]" by simp_all
  have "snd (world (chat st2)) =
          snd (world (chat st)) @
            [history (chat st) @ [Turn User m],
             history (chat st) @ [Turn User m, Turn Model t, Turn User m]]"
    if "post_api_chat out (send_message (recording gen)) (message_body m) st1 = (reply_response t2, st2)"
    for t2 st2
    using post_recording_ok [OF that] a b by simp
  with a show ?thesis by blast
qed

theorem context_sent_witness:
  "post_api_chat utf8_stdout (send_message (recording (stub_model ''hi there''))) (message_body ''hello'')
      \<lparr>chat = \<lparr>history = [], credential = Some ''k'', world = ((), [])\<rparr>, stdout = []\<rparr>
     = (reply_response ''hi there'',
        \<lparr>chat = \<lparr>history = [Turn User ''hello'', Turn Model ''hi there''], credential = Some ''k'',
                  world = ((), [[Turn User ''hello'']])\<rparr>, stdout = []\<rparr>)
   \<and> post_api_chat utf8_stdout (send_message (recording (stub_model ''hi there''))) (message_body ''hello'')
        \<lparr>chat = \<lparr>history = [Turn User ''hello'', Turn Model ''hi there''], credential = Some ''k'',
                  world = ((), [[Turn User ''hello'']])\<rparr>, stdout = []\<rparr>
     = (reply_response ''hi there'',
        \<lparr>chat = \<lparr>history = [Turn User ''hello'', Turn Model ''hi there'',
                             Turn User ''hello'', Turn Model ''hi there''],
                  credential = Some ''k'',
                  world = ((), [[Turn User ''hello''],
                                [Turn User ''hello'', Turn Model ''hi there'', Turn User ''hello'']])\<rparr>,
          stdout = []\<rparr>)
   \<and> snd (world (chat
        \<lparr>chat = \<lparr>history = [Turn User ''hello'', Turn Model ''hi there'',
                             Turn User ''hello'', Turn Model ''hi there''],
                  credential = Some ''k'',
                  world = ((), [[Turn User ''hello''],
                                [Turn User ''hello'', Turn Model ''hi there'', Turn User ''hello'']])\<rparr>,
          stdout = []\<rparr>))
     = [[Turn User ''hello''], [Turn User ''hello'', Turn Model ''hi there'', Turn User ''hello'']]"
proof -
  let ?send = "send_message (recording (stub_model ''hi there''))"
  let ?st = "\<lparr>chat = \<lparr>history = [], credential = Some ''k'',
                        world = ((), [] :: turn list list)\<rparr>, stdout = []\<rparr>"
  let ?st1 = "\<lparr>chat = \<lparr>history = [Turn User ''hello'', Turn Model ''hi there''], credential = Some ''k'',
                  world = ((), [[Turn User ''hello'']])\<rparr>, stdout = []\<rparr>"
  let ?st2 = "\<lparr>chat = \<lparr>history = [Turn User ''hello'', Turn Model ''hi there'',
                             Turn User ''hello'', Turn Model ''hi there''],
                  credential = Some ''k'',
                  world = ((), [[Turn User ''hello''],
                                [Turn User ''hello'', Turn Model ''hi there'', Turn User ''hello'']])\<rparr>,
          stdout = []\<rparr>"
  have h1: "post_api_chat utf8_stdout ?send (message_body ''hello'') ?st = (reply_response ''hi there'', ?st1)"
    by (simp add: post_api_chat_def message_body_def handle_chat_def send_message_def
        recording_def stub_model_def reply_response_def)
  have h2: "post_api_chat utf8_stdout ?send (message_body ''hello'') ?st1 = (reply_response ''hi there'', ?st2)"
    by (simp add: post_api_chat_def message_body_def handle_chat_def send_message_def
        recording_def stub_model_def reply_response_def)
  from context_sent [OF h1] have
    "\<forall>t2 st2. post_api_chat utf8_stdout ?send (message_body ''hello'') ?st1 = (reply_response t2, st2)
       \<longrightarrow> snd (world (chat st2)) =
             snd (world (chat ?st)) @
               [history (chat ?st) @ [Turn User ''hello''],
                history (chat ?st) @ [Turn User ''hello'', Turn Model ''hi there'', Turn User ''hello'']]"
    by (rule conjunct2)
  with h2 have c: "snd (world (chat ?st2)) =
             snd (world (chat ?st)) @
               [history (chat ?st) @ [Turn User ''hello''],
                history (chat ?st) @ [Turn User ''hello'', Turn Model ''hi there'', Turn User ''hello'']]"
    by blast
  from h1 h2 c show ?thesis by simp
qed

section \<open>The same message twice\<close>

text \<open>
  C6: sending is not idempotent. There are a remote model, a state and a message for which
  two POSTs of that message, both answered 200, return different replies and leave four
  more turns in the history: the message and its first reply, then the message again and
  its second reply.
\<close>

theorem send_not_idempotent:
  "\<exists>(gen :: unit collaborator) st m t1 st1 t2 st2.
     post_api_chat out (send_message gen) (message_body m) st = (reply_response t1, st1) \<and>
     post_api_chat out (send_message gen) (message_body m) st1 = (reply_response t2, st2) \<and>
     t1 \<noteq> t2 \<and>
     history (chat st2) =
       history (chat st) @ [Turn User m, Turn Model t1, Turn User m, Turn Model t2] \<and>
     length (history (chat st2)) = length (history (chat st)) + 4"
proof -
  let ?st = "\<lparr>chat = \<lparr>history = [], credential = Some ''k'', world = ()\<rparr>, stdout = []\<rparr>"
  let ?st1 = "\<lparr>chat = \<lparr>history = [Turn User ''hello'', Turn Model ''hi there''],
                        credential = Some ''k'', world = ()\<rparr>, stdout = []\<rparr>"
  let ?st2 = "\<lparr>chat = \<lparr>history = [Turn User ''hello'', Turn Model ''hi there'',
                                   Turn User ''hello'', Turn Model ''hello again''],
                        credential = Some ''k'', world = ()\<rparr>, stdout = []\<rparr>"
  have 1: "post_api_chat out (send_message context_model) (message_body ''hello'') ?st
             = (reply_response ''hi there'', ?st1)"
    by (simp add: post_api_chat_def message_body_def handle_chat_def send_message_def
        context_model_def reply_response_def)
  have 2: "post_api_chat out (send_message context_model) (message_body ''hello'') ?st1
             = (reply_response ''hello again'', ?st2)"
    by (simp add: post_api_chat_def message_body_def handle_chat_def send_message_def
        context_model_def reply_response_def)
  have 3: "''hi there'' \<noteq> ''hello again''" by simp
  have 4: "history (chat ?st2) = history (chat ?st) @
             [Turn User ''hello'', Turn Model ''hi there'', Turn User ''hello'', Turn Model ''hello again'']"
    by simp
  have 5: "length (history (chat ?st2)) = length (history (chat ?st)) + 4" by simp
  from 1 2 3 4 5 show ?thesis by blast
qed


section \<open>The empty message\<close>

lemma send_empty_refused:
  "send_message gen c [] = (Inl (Exn ''ValueError'' (Inr ''content must not be empty'')), c)"
  by (simp add: send_message_def)

lemma post_empty_refused:
  "status (fst (post_api_chat out (send_message gen) (message_body []) st)) = 500
   \<and> chat (snd (post_api_chat out (send_message gen) (message_body []) st)) = chat st"
  by (simp add: post_api_chat_def handle_chat_def send_empty_refused handle_chat_except_def
      internal_server_error_def split: sum.splits)

lemma send_recording_nonempty:
  "m \<noteq> [] \<Longrightarrow>
     snd (world (snd (send_message (recording gen) c m))) = snd (world c) @ [history c @ [Turn User m]]"
  by (simp add: send_message_def recording_def Let_def split: prod.splits sum.splits)

text \<open>
  C4: sending takes non-empty text only. For the empty message \<^verbatim>\<open>send_message\<close> raises
  without calling the remote model and leaves the session, its history and the recorded
  calls as they were; POST /api/chat with the empty message is answered 500 and the chat
  session is unchanged. Nothing else is checked: the request model takes every string as
  the message, and every non-empty message, whatever its characters, reaches the remote
  model unchanged, as the last turn of the context.
\<close>

theorem empty_message_refused:
  "(\<exists>e. send_message (recording gen) c [] = (Inl e, c))
   \<and> status (fst (post_api_chat out (send_message (recording gen)) (message_body []) st)) = 500
   \<and> chat (snd (post_api_chat out (send_message (recording gen)) (message_body []) st)) = chat st
   \<and> ChatRequest_validate (message_body m) = Inr \<lparr>message = m\<rparr>
   \<and> (m \<noteq> [] \<longrightarrow>
        snd (world (snd (send_message (recording gen) c m)))
          = snd (world c) @ [history c @ [Turn User m]])"
  using send_empty_refused [of "recording gen" c] post_empty_refused [of out "recording gen" st]
    send_recording_nonempty [of m gen c]
  by simp

theorem empty_message_refused_witness:
  "'' '' \<noteq> []
   \<and> snd (world (snd (send_message (recording (stub_model ''hi there''))
        \<lparr>history = [], credential = Some ''k'', world = ((), [])\<rparr> '' '')))
     = [[Turn User '' '']]
   \<and> status (fst (post_api_chat utf8_stdout (send_message (recording (stub_model ''hi there'')))
        (message_body [])
        \<lparr>chat = \<lparr>history = [], credential = Some ''k'', world = ((), [])\<rparr>, stdout = []\<rparr>)) = 500
   \<and> chat (snd (post_api_chat utf8_stdout (send_message (recording (stub_model ''hi there'')))
        (message_body [])
        \<lparr>chat = \<lparr>history = [], credential = Some ''k'', world = ((), [])\<rparr>, stdout = []\<rparr>))
     = \<lparr>history = [], credential = Some ''k'', world = ((), [])\<rparr>"
  using empty_message_refused [of "stub_model ''hi there''"
      "\<lparr>history = [], credential = Some ''k'', world = ((), [])\<rparr>" utf8_stdout
      "\<lparr>chat = \<lparr>history = [], credential = Some ''k'', world = ((), [])\<rparr>, stdout = []\<rparr>"
      "'' ''"]
  by simp

section \<open>Startup without GEMINI_API_KEY\<close>




end
